theory Spec2Isabelle
  imports Main "HOL-Library.Word" "HOL-Library.Sublist"
begin

section \<open>Data model\<close>

text \<open>
  The shredder works on a file system, a source of random bytes and a checkpoint file.
  Paths are byte strings, file contents are byte lists. The model has one directory, whose
  entries are looked up by path; hard links and symbolic links are outside the model.
\<close>

type_synonym byte = "8 word"
type_synonym path = string

text \<open>\<^verbatim>\<open>type ShredMetadata struct { Pass int64; TempPath string; OriginalPath string }\<close>.
  \<open>Pass\<close> is an \<open>int64\<close> in the source. The only arithmetic on it is \<open>i + 1\<close> under the
  loop guard \<open>i < passes\<close>, which cannot overflow, so it is modelled as \<open>int\<close>.\<close>

record ShredMetadata =
  Pass :: int
  TempPath :: path
  OriginalPath :: path

text \<open>
  What a file holds. \<open>encoding/json\<close> is an external library: a file written by the encoder
  is kept as the record it encodes (\<open>Json\<close>), and the decoder returns that record; a file
  of any other bytes (\<open>Data\<close>) makes the decoder fail.
\<close>

datatype fdata = Data "byte list" | Json ShredMetadata

record fentry =
  content :: fdata
  writable :: bool   \<comment> \<open>the caller may open the file for writing\<close>
  locked :: bool     \<comment> \<open>another process holds an exclusive \<open>flock\<close> on the file\<close>

datatype error =
    ENOENT           \<comment> \<open>no such file\<close>
  | EACCES           \<comment> \<open>permission denied\<close>
  | EWOULDBLOCK      \<comment> \<open>non-blocking \<open>flock\<close> on a file locked elsewhere\<close>
  | EBADF            \<comment> \<open>descriptor without a file\<close>
  | EIO              \<comment> \<open>a read, write, rename, truncate or delete that failed\<close>
  | EJSON            \<comment> \<open>the decoder rejected the bytes\<close>
  | ERAND            \<comment> \<open>the random source failed\<close>
  | SizeExceeded     \<comment> \<open>\<^verbatim>\<open>file size exceeds the allowed limit\<close>\<close>
  | FileLocked       \<comment> \<open>\<^verbatim>\<open>file is locked by another process\<close>\<close>
  | TempFileLocked   \<comment> \<open>\<^verbatim>\<open>temporary file is locked by another process\<close>\<close>

text \<open>
  How a call ends: it returns a value, or it stops. It stops because it returns an error,
  because the process is killed, or because a blocking \<open>flock\<close> waits for a lock that is
  never released, so that the call never returns.
\<close>

datatype stop = Failed error | Died | Hung

datatype 'a result = Ok 'a | Stop stop

abbreviation Fail :: "error \<Rightarrow> 'a result" where
  "Fail e \<equiv> Stop (Failed e)"

abbreviation Killed :: "'a result" where
  "Killed \<equiv> Stop Died"

abbreviation Blocked :: "'a result" where
  "Blocked \<equiv> Stop Hung"

text \<open>
  The environment decides, for each operation that moves data or changes the directory
  (decode, encode, write, rename, truncate, remove), whether it goes through, fails with an
  I/O error, or the process is killed at that point. The decisions are consumed in order;
  when none is left every operation goes through.
\<close>

datatype fate = Proceed | Fault | Kill

text \<open>The effects and checks of a run, in the order they happen.\<close>

datatype event =
    LockCheck path bool          \<comment> \<open>\<open>isFileLocked\<close> was called and returned this\<close>
  | Renamed path path
  | Saved ShredMetadata          \<comment> \<open>checkpoint written\<close>
  | RandRead nat                 \<comment> \<open>that many fresh random bytes were drawn\<close>
  | Written path nat "byte list" \<comment> \<open>file, offset, buffer\<close>
  | Truncated path nat
  | Removed path

record world =
  files :: "path \<rightharpoonup> fentry"
  rand_src :: "byte list"
  fates :: "fate list"
  trace :: "event list"

type_synonym 'a io = "world \<Rightarrow> 'a result \<times> world"

definition ret :: "'a \<Rightarrow> 'a io" where
  "ret x w = (Ok x, w)"

definition fail :: "error \<Rightarrow> 'a io" where
  "fail e w = (Fail e, w)"

definition bnd :: "'a io \<Rightarrow> ('a \<Rightarrow> 'b io) \<Rightarrow> 'b io" where
  "bnd m f w = (case m w of (Ok x, w') \<Rightarrow> f x w' | (Stop s, w') \<Rightarrow> (Stop s, w'))"

text \<open>Go's \<^verbatim>\<open>x, err := f()\<close>: the error becomes a value the caller inspects. A kill or a
  call that never returns is not an error value.\<close>

definition attempt :: "'a io \<Rightarrow> (error + 'a) io" where
  "attempt m w =
     (case m w of
        (Ok x, w') \<Rightarrow> (Ok (Inr x), w')
      | (Stop (Failed e), w') \<Rightarrow> (Ok (Inl e), w')
      | (Stop Died, w') \<Rightarrow> (Killed, w')
      | (Stop Hung, w') \<Rightarrow> (Blocked, w'))"

definition emit :: "event \<Rightarrow> world \<Rightarrow> world" where
  "emit e w = w\<lparr>trace := trace w @ [e]\<rparr>"

definition io_gate :: "unit io" where
  "io_gate w =
     (case fates w of
        [] \<Rightarrow> (Ok (), w)
      | Proceed # fs \<Rightarrow> (Ok (), w\<lparr>fates := fs\<rparr>)
      | Fault # fs \<Rightarrow> (Fail EIO, w\<lparr>fates := fs\<rparr>)
      | Kill # fs \<Rightarrow> (Killed, w\<lparr>fates := fs\<rparr>))"

section \<open>The bytes of a checkpoint\<close>

text \<open>
  The bytes \<open>json.Encoder\<close> writes for a \<open>ShredMetadata\<close> whose paths need no escaping:
  \<^verbatim>\<open>{"Pass":0,"TempPath":"f.tmp","OriginalPath":"f"}\<close> and a newline. The bytes matter only
  when a checkpoint file is itself measured or overwritten.
\<close>

fun digit_char :: "nat \<Rightarrow> char" where
  "digit_char n = char_of (48 + n)"

function show_nat :: "nat \<Rightarrow> string" where
  "show_nat n = (if n < 10 then [digit_char n] else show_nat (n div 10) @ [digit_char (n mod 10)])"
  by pat_completeness auto
termination
  by (relation "measure id") auto

definition show_int :: "int \<Rightarrow> string" where
  "show_int i = (if i < 0 then CHR ''-'' # show_nat (nat (- i)) else show_nat (nat i))"

definition json_text :: "ShredMetadata \<Rightarrow> string" where
  "json_text m =
     [CHR ''{'', CHR 0x22] @ ''Pass'' @ [CHR 0x22, CHR '':''] @ show_int (Pass m) @
     [CHR '','', CHR 0x22] @ ''TempPath'' @ [CHR 0x22, CHR '':'', CHR 0x22] @ TempPath m @
     [CHR 0x22, CHR '','', CHR 0x22] @ ''OriginalPath'' @ [CHR 0x22, CHR '':'', CHR 0x22] @
     OriginalPath m @ [CHR 0x22, CHR ''}'', CHR 0x0A]"

definition bytes_of :: "fdata \<Rightarrow> byte list" where
  "bytes_of d = (case d of Data bs \<Rightarrow> bs | Json m \<Rightarrow> map (\<lambda>c. of_nat (of_char c)) (json_text m))"

definition fsize :: "fentry \<Rightarrow> nat" where
  "fsize f = length (bytes_of (content f))"

section \<open>Operating system calls\<close>

text \<open>\<open>os.Stat(path)\<close>, of which the code reads \<open>Size()\<close> only.\<close>

definition os_Stat :: "path \<Rightarrow> nat io" where
  "os_Stat p w = (case files w p of None \<Rightarrow> (Fail ENOENT, w) | Some f \<Rightarrow> (Ok (fsize f), w))"

text \<open>\<open>os.Open(name)\<close>, for reading.\<close>

definition os_Open :: "path \<Rightarrow> unit io" where
  "os_Open p w = (case files w p of None \<Rightarrow> (Fail ENOENT, w) | Some f \<Rightarrow> (Ok (), w))"

text \<open>\<open>os.OpenFile(name, os.O_WRONLY, 0)\<close>. A descriptor is modelled by the path its file
  has at the moment: the only renames are the shredder's own, and each of them moves the
  working file to the path the shredder then keeps in \<open>TempPath\<close>.\<close>

definition os_OpenFile :: "path \<Rightarrow> unit io" where
  "os_OpenFile p w =
     (case files w p of
        None \<Rightarrow> (Fail ENOENT, w)
      | Some f \<Rightarrow> if writable f then (Ok (), w) else (Fail EACCES, w))"

text \<open>\<open>os.Create(name)\<close>: creates the file, or truncates the one that is there.\<close>

definition os_Create :: "path \<Rightarrow> unit io" where
  "os_Create p w =
     (case files w p of
        None \<Rightarrow> (Ok (), w\<lparr>files := (files w)(p \<mapsto> \<lparr>content = Data [], writable = True, locked = False\<rparr>)\<rparr>)
      | Some f \<Rightarrow>
          if writable f then (Ok (), w\<lparr>files := (files w)(p \<mapsto> f\<lparr>content := Data []\<rparr>)\<rparr>)
          else (Fail EACCES, w))"

text \<open>\<open>syscall.Flock(fd, LOCK_EX|LOCK_NB)\<close> and \<open>syscall.Flock(fd, LOCK_EX)\<close>.\<close>

definition flock_EX_NB :: "path \<Rightarrow> unit io" where
  "flock_EX_NB p w =
     (case files w p of
        None \<Rightarrow> (Fail EBADF, w)
      | Some f \<Rightarrow> if locked f then (Fail EWOULDBLOCK, w) else (Ok (), w))"

definition flock_EX :: "path \<Rightarrow> unit io" where
  "flock_EX p w =
     (case files w p of
        None \<Rightarrow> (Fail EBADF, w)
      | Some f \<Rightarrow> if locked f then (Blocked, w) else (Ok (), w))"

definition os_Rename :: "path \<Rightarrow> path \<Rightarrow> unit io" where
  "os_Rename old new w =
     (case files w old of
        None \<Rightarrow> (Fail ENOENT, w)
      | Some f \<Rightarrow>
          bnd io_gate (\<lambda>_ w'.
            (Ok (), emit (Renamed old new) (w'\<lparr>files := ((files w')(old := None))(new \<mapsto> f)\<rparr>))) w)"

definition os_Remove :: "path \<Rightarrow> unit io" where
  "os_Remove p w =
     (case files w p of
        None \<Rightarrow> (Fail ENOENT, w)
      | Some f \<Rightarrow>
          bnd io_gate (\<lambda>_ w'. (Ok (), emit (Removed p) (w'\<lparr>files := (files w')(p := None)\<rparr>))) w)"

text \<open>\<open>f.WriteAt(b, off)\<close>: the buffer replaces the bytes from \<open>off\<close> on; a file shorter
  than \<open>off\<close> is padded with zeros, a file longer than the buffer keeps its tail.\<close>

definition write_at :: "byte list \<Rightarrow> nat \<Rightarrow> byte list \<Rightarrow> byte list" where
  "write_at old off buf =
     take off old @ replicate (off - length old) 0 @ buf @ drop (off + length buf) old"

definition f_WriteAt :: "path \<Rightarrow> byte list \<Rightarrow> nat \<Rightarrow> unit io" where
  "f_WriteAt p buf off =
     bnd io_gate (\<lambda>_ w.
       case files w p of
         None \<Rightarrow> (Fail EBADF, w)
       | Some f \<Rightarrow>
           (Ok (), emit (Written p off buf)
              (w\<lparr>files := (files w)(p \<mapsto> f\<lparr>content := Data (write_at (bytes_of (content f)) off buf)\<rparr>)\<rparr>)))"

definition f_Truncate :: "path \<Rightarrow> nat \<Rightarrow> unit io" where
  "f_Truncate p n =
     bnd io_gate (\<lambda>_ w.
       case files w p of
         None \<Rightarrow> (Fail EBADF, w)
       | Some f \<Rightarrow>
           (Ok (), emit (Truncated p n)
              (w\<lparr>files := (files w)(p \<mapsto>
                   f\<lparr>content := Data (take n (bytes_of (content f)) @
                                       replicate (n - length (bytes_of (content f))) 0)\<rparr>)\<rparr>)))"

text \<open>\<open>rand.Read(b)\<close> fills the whole buffer or fails.\<close>

definition rand_Read :: "nat \<Rightarrow> byte list io" where
  "rand_Read n w =
     (if n \<le> length (rand_src w)
      then (Ok (take n (rand_src w)), emit (RandRead n) (w\<lparr>rand_src := drop n (rand_src w)\<rparr>))
      else (Fail ERAND, w))"

text \<open>\<open>json.NewEncoder(file).Encode(metadata)\<close> and \<open>json.NewDecoder(file).Decode(&metadata)\<close>
  on the file opened at \<open>p\<close>.\<close>

definition json_Encode :: "path \<Rightarrow> ShredMetadata \<Rightarrow> unit io" where
  "json_Encode p m =
     bnd io_gate (\<lambda>_ w.
       case files w p of
         None \<Rightarrow> (Fail EBADF, w)
       | Some f \<Rightarrow> (Ok (), emit (Saved m) (w\<lparr>files := (files w)(p \<mapsto> f\<lparr>content := Json m\<rparr>)\<rparr>)))"

definition json_Decode :: "path \<Rightarrow> ShredMetadata io" where
  "json_Decode p =
     bnd io_gate (\<lambda>_ w.
       case files w p of
         None \<Rightarrow> (Fail EBADF, w)
       | Some f \<Rightarrow> (case content f of Json m \<Rightarrow> (Ok m, w) | Data bs \<Rightarrow> (Fail EJSON, w)))"

section \<open>The shredder of \<^verbatim>\<open>shred.go\<close>\<close>

definition saveMetadata :: "ShredMetadata \<Rightarrow> unit io" where
  "saveMetadata metadata =
     bnd (os_Create (OriginalPath metadata @ ''.shredmeta'')) (\<lambda>_.
     json_Encode (OriginalPath metadata @ ''.shredmeta'') metadata)"

definition loadMetadata :: "path \<Rightarrow> ShredMetadata io" where
  "loadMetadata path =
     bnd (os_Open (path @ ''.shredmeta'')) (\<lambda>_.
     json_Decode (path @ ''.shredmeta''))"

definition isFileLocked :: "path \<Rightarrow> bool io" where
  "isFileLocked path =
     bnd (bnd (attempt (os_OpenFile path)) (\<lambda>r.
            case r of
              Inl err \<Rightarrow> ret False
            | Inr _ \<Rightarrow>
                bnd (attempt (flock_EX_NB path)) (\<lambda>r.
                  case r of Inl err \<Rightarrow> ret True | Inr _ \<Rightarrow> ret False)))
         (\<lambda>b w. (Ok b, emit (LockCheck path b) w))"

definition charset :: string where
  "charset = ''abcdefghijklmnopqrstuvwxyzABCDEFGHIJKLMNOPQRSTUVWXYZ0123456789''"

text \<open>\<^verbatim>\<open>b[i] = charset[int(b[i])%len(charset)]\<close>\<close>

definition reduce_byte :: "byte \<Rightarrow> char" where
  "reduce_byte b = charset ! (unat b mod length charset)"

definition randomString :: "nat \<Rightarrow> string io" where
  "randomString len = bnd (rand_Read len) (\<lambda>b. ret (map reduce_byte b))"

text \<open>\<^verbatim>\<open>for i := metadata.Pass; i < passes; i++ { ... }\<close>\<close>

function overwrite_loop :: "nat \<Rightarrow> int \<Rightarrow> int \<Rightarrow> ShredMetadata \<Rightarrow> ShredMetadata io" where
  "overwrite_loop sz passes i metadata =
     (if i < passes then
        bnd (rand_Read sz) (\<lambda>randomData.
        bnd (f_WriteAt (TempPath metadata) randomData 0) (\<lambda>_.
        bnd (saveMetadata (metadata\<lparr>Pass := i + 1\<rparr>)) (\<lambda>_.
        overwrite_loop sz passes (i + 1) (metadata\<lparr>Pass := i + 1\<rparr>))))
      else ret metadata)"
  by pat_completeness auto
termination
  by (relation "measure (\<lambda>(sz, passes, i, metadata). nat (passes - i))") auto

text \<open>\<^verbatim>\<open>for i := 0; i < 10; i++ { ... }\<close>\<close>

function rename_loop :: "nat \<Rightarrow> ShredMetadata \<Rightarrow> ShredMetadata io" where
  "rename_loop i metadata =
     (if i < 10 then
        bnd (randomString 12) (\<lambda>newName.
        bnd (os_Rename (TempPath metadata) (TempPath metadata @ ''.'' @ newName)) (\<lambda>_.
        bnd (saveMetadata (metadata\<lparr>TempPath := TempPath metadata @ ''.'' @ newName\<rparr>)) (\<lambda>_.
        rename_loop (i + 1) (metadata\<lparr>TempPath := TempPath metadata @ ''.'' @ newName\<rparr>))))
      else ret metadata)"
  by pat_completeness auto
termination
  by (relation "measure (\<lambda>(i, metadata). 10 - i)") auto

definition Shred :: "path \<Rightarrow> int \<Rightarrow> unit io" where
  "Shred path passes =
     bnd (os_Stat path) (\<lambda>sz.
     if sz > 1024 * 1024 * 1024 then fail SizeExceeded else
     bnd (attempt (loadMetadata path)) (\<lambda>r.
     bnd (ret (case r of Inr m \<Rightarrow> m
                       | Inl err \<Rightarrow> \<lparr>Pass = 0, TempPath = [], OriginalPath = path\<rparr>)) (\<lambda>metadata.
     bnd (if TempPath metadata = [] then
            bnd (os_Rename path (path @ ''.tmp'')) (\<lambda>_.
            bnd (saveMetadata (metadata\<lparr>TempPath := path @ ''.tmp''\<rparr>)) (\<lambda>_.
            ret (metadata\<lparr>TempPath := path @ ''.tmp''\<rparr>)))
          else ret metadata) (\<lambda>metadata.
     bnd (isFileLocked (TempPath metadata)) (\<lambda>lck.
     if lck then fail TempFileLocked else
     bnd (os_OpenFile (TempPath metadata)) (\<lambda>_.
     bnd (flock_EX (TempPath metadata)) (\<lambda>_.
     bnd (overwrite_loop sz passes (Pass metadata) metadata) (\<lambda>metadata.
     bnd (rename_loop 0 metadata) (\<lambda>metadata.
     bnd (f_Truncate (TempPath metadata) 0) (\<lambda>_.
     bnd (os_Remove (OriginalPath metadata @ ''.shredmeta'')) (\<lambda>_.
     os_Remove (TempPath metadata))))))))))))"

section \<open>The shredder of the second source file\<close>

text \<open>
  The second source file has the same \<open>ShredMetadata\<close>, \<open>saveMetadata\<close>, \<open>loadMetadata\<close> and
  \<open>randomString\<close>, and the same rename loop and clean-up. Its \<open>isFileLocked\<close> begins with
  \<^verbatim>\<open>return false\<close>, so the statements after it never run. Its \<open>Shred\<close> checks the original
  path before loading the checkpoint, locks the original file, and checks the working path
  inside the overwrite loop.
\<close>

definition isFileLocked_alt :: "path \<Rightarrow> bool io" where
  "isFileLocked_alt path = bnd (ret False) (\<lambda>b w. (Ok b, emit (LockCheck path b) w))"

function overwrite_loop_alt :: "nat \<Rightarrow> int \<Rightarrow> int \<Rightarrow> ShredMetadata \<Rightarrow> ShredMetadata io" where
  "overwrite_loop_alt sz passes i metadata =
     (if i < passes then
        bnd (isFileLocked_alt (TempPath metadata)) (\<lambda>lck.
        if lck then fail TempFileLocked else
        bnd (rand_Read sz) (\<lambda>randomData.
        bnd (f_WriteAt (TempPath metadata) randomData 0) (\<lambda>_.
        bnd (saveMetadata (metadata\<lparr>Pass := i + 1\<rparr>)) (\<lambda>_.
        overwrite_loop_alt sz passes (i + 1) (metadata\<lparr>Pass := i + 1\<rparr>)))))
      else ret metadata)"
  by pat_completeness auto
termination
  by (relation "measure (\<lambda>(sz, passes, i, metadata). nat (passes - i))") auto

definition Shred_alt :: "path \<Rightarrow> int \<Rightarrow> unit io" where
  "Shred_alt path passes =
     bnd (os_Stat path) (\<lambda>sz.
     if sz > 1024 * 1024 * 1024 then fail SizeExceeded else
     bnd (isFileLocked_alt path) (\<lambda>lck.
     if lck then fail FileLocked else
     bnd (attempt (loadMetadata path)) (\<lambda>r.
     bnd (ret (case r of Inr m \<Rightarrow> m
                       | Inl err \<Rightarrow> \<lparr>Pass = 0, TempPath = [], OriginalPath = path\<rparr>)) (\<lambda>metadata.
     bnd (os_OpenFile path) (\<lambda>_.
     bnd (flock_EX path) (\<lambda>_.
     bnd (if TempPath metadata = [] then
            bnd (os_Rename path (path @ ''.tmp'')) (\<lambda>_.
            bnd (saveMetadata (metadata\<lparr>TempPath := path @ ''.tmp''\<rparr>)) (\<lambda>_.
            ret (metadata\<lparr>TempPath := path @ ''.tmp''\<rparr>)))
          else ret metadata) (\<lambda>metadata.
     bnd (os_OpenFile (TempPath metadata)) (\<lambda>_.
     bnd (overwrite_loop_alt sz passes (Pass metadata) metadata) (\<lambda>metadata.
     bnd (rename_loop 0 metadata) (\<lambda>metadata.
     bnd (f_Truncate (TempPath metadata) 0) (\<lambda>_.
     bnd (os_Remove (OriginalPath metadata @ ''.shredmeta'')) (\<lambda>_.
     os_Remove (TempPath metadata)))))))))))))"

section \<open>Counting the bytes behind a suffix character\<close>

text \<open>How many of the 256 byte values \<open>randomString\<close> turns into the character \<open>c\<close>.\<close>

definition preimages :: "char \<Rightarrow> nat" where
  "preimages c = card {b :: byte. reduce_byte b = c}"

definition never :: "error \<Rightarrow> 'a io \<Rightarrow> bool" where
  "never e m \<longleftrightarrow> (\<forall>w. fst (m w) \<noteq> Fail e)"

section \<open>Sequencing\<close>

declare overwrite_loop.simps [simp del]
declare overwrite_loop_alt.simps [simp del]
declare rename_loop.simps [simp del]
declare show_nat.simps [simp del]

lemma bnd_ret [simp]: "bnd (ret x) f = f x"
  by (rule ext) (simp add: bnd_def ret_def)

lemma bnd_fail [simp]: "bnd (fail e) f = fail e"
  by (rule ext) (simp add: bnd_def fail_def)

lemma bnd_Ok: "m w = (Ok x, w1) \<Longrightarrow> bnd m f w = f x w1"
  by (simp add: bnd_def)

lemma bnd_Stop: "m w = (Stop s, w1) \<Longrightarrow> bnd m f w = (Stop s, w1)"
  by (simp add: bnd_def)

lemma bnd_cases:
  assumes "bnd m f w = (r, w')"
  obtains (stop) s where "m w = (Stop s, w')" and "r = Stop s"
        | (ok) x w1 where "m w = (Ok x, w1)" and "f x w1 = (r, w')"
  using assms by (auto simp: bnd_def split: prod.splits result.splits)

section \<open>The lock check on a path that cannot be opened\<close>

text \<open>
  Claim C9. When the path names no file, or names a file the caller may not write,
  \<open>isFileLocked\<close> returns \<open>false\<close>: it reports neither a lock nor an error, and changes
  nothing.
\<close>

theorem isFileLocked_unopenable:
  assumes "files w p = None \<or> (\<exists>f. files w p = Some f \<and> \<not> writable f)"
  shows "isFileLocked p w = (Ok False, emit (LockCheck p False) w)"
  using assms
  by (auto simp: isFileLocked_def os_OpenFile_def attempt_def bnd_def ret_def)

theorem isFileLocked_unopenable_witness:
  "(files \<lparr>files = Map.empty, rand_src = [], fates = [], trace = []\<rparr> ''nonexistentfile'' = None \<or>
    (\<exists>f. files \<lparr>files = Map.empty, rand_src = [], fates = [], trace = []\<rparr> ''nonexistentfile'' = Some f
         \<and> \<not> writable f)) \<and>
   isFileLocked ''nonexistentfile'' \<lparr>files = Map.empty, rand_src = [], fates = [], trace = []\<rparr> =
     (Ok False, \<lparr>files = Map.empty, rand_src = [], fates = [],
                 trace = [LockCheck ''nonexistentfile'' False]\<rparr>)"
  using isFileLocked_unopenable
    [of "\<lparr>files = Map.empty, rand_src = [], fates = [], trace = []\<rparr>" "''nonexistentfile''"]
  by (simp add: emit_def)

section \<open>A path that names no file\<close>

text \<open>
  Claim C8. When the path names no file, \<open>Shred\<close> returns the not-found error of \<open>os.Stat\<close>
  at once, and the world is the one it started in: no checkpoint is created and nothing
  else changes. Both variants behave so.
\<close>

theorem Shred_nonexistent:
  assumes "files w path = None"
  shows "Shred path passes w = (Fail ENOENT, w) \<and> Shred_alt path passes w = (Fail ENOENT, w)"
  using assms by (simp add: Shred_def Shred_alt_def os_Stat_def bnd_def)

theorem Shred_nonexistent_witness:
  "files \<lparr>files = Map.empty, rand_src = [], fates = [], trace = []\<rparr> ''nonexistentfile'' = None \<and>
   Shred ''nonexistentfile'' 3 \<lparr>files = Map.empty, rand_src = [], fates = [], trace = []\<rparr> =
     (Fail ENOENT, \<lparr>files = Map.empty, rand_src = [], fates = [], trace = []\<rparr>) \<and>
   Shred_alt ''nonexistentfile'' 3 \<lparr>files = Map.empty, rand_src = [], fates = [], trace = []\<rparr> =
     (Fail ENOENT, \<lparr>files = Map.empty, rand_src = [], fates = [], trace = []\<rparr>)"
  using Shred_nonexistent
    [of "\<lparr>files = Map.empty, rand_src = [], fates = [], trace = []\<rparr>" "''nonexistentfile''" 3]
  by simp

section \<open>The distribution of a suffix character\<close>

lemma length_charset: "length charset = 62"
  by (simp add: charset_def)

lemma distinct_charset: "distinct charset"
  by (simp add: charset_def)

lemma card_bytes: "card {b :: byte. P (unat b)} = card {n. n < 256 \<and> P n}"
proof -
  have "unat ` {b :: byte. P (unat b)} = {n. n < 256 \<and> P n}"
  proof (intro set_eqI iffI)
    fix n assume "n \<in> unat ` {b :: byte. P (unat b)}"
    then obtain b :: byte where "n = unat b" "P (unat b)" by auto
    moreover have "unat b < 2 ^ 8" using unsigned_less [of b] by simp
    ultimately show "n \<in> {n. n < 256 \<and> P n}" by simp
  next
    fix n assume "n \<in> {n. n < 256 \<and> P n}"
    then have n: "n < 256" "P n" by auto
    then have "unat (of_nat n :: byte) = n" by (simp add: unat_of_nat)
    with n have "of_nat n \<in> {b :: byte. P (unat b)}" by simp
    then have "unat (of_nat n :: byte) \<in> unat ` {b :: byte. P (unat b)}" by (rule imageI)
    then show "n \<in> unat ` {b :: byte. P (unat b)}"
      using \<open>unat (of_nat n :: byte) = n\<close> by simp
  qed
  moreover have "inj_on unat {b :: byte. P (unat b)}"
    by (auto simp: inj_on_def word_unat_eq_iff)
  ultimately show ?thesis by (metis card_image)
qed

lemma card_residues:
  assumes "i < (62::nat)"
  shows "card {n. n < 256 \<and> n mod 62 = i} = (if i < 8 then 5 else 4)"
proof -
  have A: "{n. n < 256 \<and> n mod 62 = i} = (\<lambda>q. 62 * q + i) ` {q. 62 * q + i < 256}"
  proof (intro set_eqI iffI)
    fix n assume "n \<in> {n. n < 256 \<and> n mod 62 = i}"
    then have "n < 256" "n mod 62 = i" by auto
    then have "n = 62 * (n div 62) + i" "62 * (n div 62) + i < 256" by auto
    then show "n \<in> (\<lambda>q. 62 * q + i) ` {q. 62 * q + i < 256}" by blast
  next
    fix n assume "n \<in> (\<lambda>q. 62 * q + i) ` {q. 62 * q + i < 256}"
    then obtain q where "n = 62 * q + i" "62 * q + i < 256" by auto
    with assms show "n \<in> {n. n < 256 \<and> n mod 62 = i}" by simp
  qed
  have B: "{q. 62 * q + i < 256} = {..<(if i < 8 then 5 else 4)}"
    using assms by auto
  have "inj_on (\<lambda>q. 62 * q + i) {q. 62 * q + i < 256}"
    by (simp add: inj_on_def)
  then have "card {n. n < 256 \<and> n mod 62 = i} = card {q. 62 * q + i < 256}"
    unfolding A by (rule card_image)
  then show ?thesis by (simp add: B)
qed

lemma preimages_nth:
  assumes "i < 62"
  shows "preimages (charset ! i) = (if i < 8 then 5 else 4)"
proof -
  have "\<And>b :: byte. (reduce_byte b = charset ! i) = (unat b mod 62 = i)"
    using assms distinct_charset
    by (simp add: reduce_byte_def length_charset nth_eq_iff_index_eq)
  then have "preimages (charset ! i) = card {b :: byte. unat b mod 62 = i}"
    by (simp add: preimages_def)
  also have "\<dots> = card {n. n < 256 \<and> n mod 62 = i}" by (rule card_bytes)
  also have "\<dots> = (if i < 8 then 5 else 4)" using assms by (rule card_residues)
  finally show ?thesis .
qed

text \<open>
  Claim C7, as the code has it. A suffix character is \<open>charset[b % 62]\<close> for a byte \<open>b\<close>.
  Since 256 = 4 * 62 + 8, the first eight characters of the alphabet, \<open>a\<close> to \<open>h\<close>, each
  come from five byte values, and the other fifty-four each come from four.
\<close>

theorem suffix_char_counts: "map preimages charset = replicate 8 5 @ replicate 54 4"
proof -
  have "map preimages (map ((!) charset) [0..<length charset]) =
        map (\<lambda>i. preimages (charset ! i)) [0..<length charset]"
    by simp
  then have "map preimages charset = map (\<lambda>i. preimages (charset ! i)) [0..<length charset]"
    by (simp only: map_nth)
  also have "\<dots> = map (\<lambda>i. if i < 8 then 5 else 4) [0..<62]"
    by (simp add: length_charset preimages_nth)
  also have "\<dots> = replicate 8 5 @ replicate 54 4"
    by (simp add: upt_rec numeral_eq_Suc)
  finally show ?thesis .
qed

text \<open>
  The characters are not equally likely: \<open>a\<close> comes from five byte values and \<open>i\<close> from
  four.
\<close>

theorem suffix_not_uniform:
  "preimages (CHR ''a'') = 5 \<and> preimages (CHR ''i'') = 4 \<and>
   preimages (CHR ''a'') \<noteq> preimages (CHR ''i'')"
  using preimages_nth [of 0] preimages_nth [of 8] by (simp add: charset_def)

end
